theory Spec2Isabelle
  imports Complex_Main
begin

section \<open>The stock dashboard of app.py\<close>

text \<open>
  The program is one Streamlit script, run from top to bottom at every user interaction:
  it reads a ticker and two dates, validates the range, fetches the price series through
  the memoised function \<open>get_stock_data\<close>, derives three columns, computes four summary
  numbers and renders a chart, four cards and a coloured table.

  Numbers. The script computes in IEEE double precision. The model computes in the reals:
  a finite float is a \<open>real\<close>, a column that may hold NaN is a list of \<open>real option\<close>
  with \<open>None\<close> for NaN. Rounding is not modelled. The model has no infinities: a quotient
  with a zero divisor is \<open>None\<close> (in the script it is NaN for \<open>0/0\<close> and an infinity
  otherwise), so every result below that depends on a quotient is stated for non-zero
  or positive prices, where no such quotient occurs.

  Dates are day ordinals (\<open>date.toordinal()\<close>): comparing two Python dates is comparing
  their ordinals. Cache time is counted in whole seconds.
\<close>

type_synonym date = int
type_synonym seconds = int
type_synonym row = "date \<times> real"

subsection \<open>The pandas operations the script uses\<close>

datatype py_error = IndexError

definition fdiv :: "real \<Rightarrow> real \<Rightarrow> real option" where
  "fdiv x y = (if y = 0 then None else Some (x / y))"

text \<open>\<open>Series.pct_change()\<close>: the series divided by itself shifted by one row, minus 1;
  the first entry has no predecessor and is NaN.\<close>

definition pct :: "real \<Rightarrow> real \<Rightarrow> real option" where
  "pct prev cur = map_option (\<lambda>q. q - 1) (fdiv cur prev)"

fun pct_change :: "real list \<Rightarrow> real option list" where
  "pct_change [] = []"
| "pct_change (x # xs) = None # map2 pct (x # xs) xs"

text \<open>\<open>Series.cumprod()\<close> (skipna): a NaN entry stays NaN in the output and leaves the
  running product as it was.\<close>

fun cumprod_from :: "real \<Rightarrow> real option list \<Rightarrow> real option list" where
  "cumprod_from acc [] = []"
| "cumprod_from acc (None # xs) = None # cumprod_from acc xs"
| "cumprod_from acc (Some x # xs) = Some (acc * x) # cumprod_from (acc * x) xs"

definition cumprod :: "real option list \<Rightarrow> real option list" where
  "cumprod xs = cumprod_from 1 xs"

text \<open>\<open>Series.cummax()\<close> on a column without NaN: the running maximum.\<close>

fun cummax_from :: "real \<Rightarrow> real list \<Rightarrow> real list" where
  "cummax_from m [] = []"
| "cummax_from m (x # xs) = max m x # cummax_from (max m x) xs"

fun cummax :: "real list \<Rightarrow> real list" where
  "cummax [] = []"
| "cummax (x # xs) = x # cummax_from x xs"

text \<open>The reductions \<open>mean()\<close>, \<open>std()\<close> (\<open>ddof = 1\<close>) and \<open>min()\<close> skip NaN entries; on
  too few remaining values they return NaN.\<close>

fun dropna :: "real option list \<Rightarrow> real list" where
  "dropna [] = []"
| "dropna (None # xs) = dropna xs"
| "dropna (Some x # xs) = x # dropna xs"

definition series_mean :: "real option list \<Rightarrow> real option" where
  "series_mean xs =
     (let vs = dropna xs in
      if vs = [] then None else Some (sum_list vs / real (length vs)))"

definition series_std :: "real option list \<Rightarrow> real option" where
  "series_std xs =
     (let vs = dropna xs; n = length vs in
      if n \<le> 1 then None
      else let avg = sum_list vs / real n in
           Some (sqrt (sum_list (map (\<lambda>v. (avg - v)\<^sup>2) vs) / real (n - 1))))"

definition series_min :: "real option list \<Rightarrow> real option" where
  "series_min xs = (case dropna xs of [] \<Rightarrow> None | v # vs \<Rightarrow> Some (fold min vs v))"

text \<open>\<open>Series.iloc[-1]\<close> raises IndexError on an empty series.\<close>

definition iloc_last :: "'a list \<Rightarrow> py_error + 'a" where
  "iloc_last xs = (if xs = [] then Inl IndexError else Inr (last xs))"

subsection \<open>The data frame and \<open>get_stock_data\<close>\<close>

record frame =
  Index :: "date list"
  Close :: "real list"
  Daily_Return :: "real option list"
  Cumulative_Return :: "real option list"
  Max_Drawdown :: "real option list"

text \<open>Lines 33 to 35: the three derived columns, added to the downloaded rows.\<close>

definition add_returns :: "row list \<Rightarrow> frame" where
  "add_returns data =
     (let close = map snd data;
          daily = pct_change close;
          cumulative = map (map_option (\<lambda>p. p - 1)) (cumprod (map (map_option (\<lambda>r. 1 + r)) daily));
          drawdown = map2 (\<lambda>c m. map_option (\<lambda>q. q - 1) (fdiv c m)) close (cummax close)
      in \<lparr>Index = map fst data, Close = close, Daily_Return = daily,
          Cumulative_Return = cumulative, Max_Drawdown = drawdown\<rparr>)"

text \<open>The data provider \<open>yf.download\<close> is outside the program: it is a parameter, the
  rows it would return for a ticker and a range at the moment of the call.\<close>

type_synonym adapter = "string \<Rightarrow> date \<Rightarrow> date \<Rightarrow> row list"

definition get_stock_data :: "adapter \<Rightarrow> string \<Rightarrow> date \<Rightarrow> date \<Rightarrow> frame option" where
  "get_stock_data download ticker start end' =
     (let data = download ticker start end' in
      if data = [] then None else Some (add_returns data))"

subsection \<open>The cache of \<open>st.cache_data(ttl=3600)\<close>\<close>

text \<open>
  The decorator keeps, per argument triple, the returned value and the time it was stored;
  a stored value is served while its age is below the time to live, and the function body
  (with its one call of the data provider) runs otherwise. A returned \<open>None\<close> is stored
  like any other value. The session records the body's calls of the data provider.
\<close>

type_synonym key = "string \<times> date \<times> date"

record session =
  cache :: "key \<rightharpoonup> (frame option \<times> seconds)"
  adapter_calls :: "key list"

definition ttl :: seconds where
  "ttl = 3600"

definition run_body :: "adapter \<Rightarrow> seconds \<Rightarrow> key \<Rightarrow> session \<Rightarrow> frame option \<times> session" where
  "run_body download now k s =
     (case k of (ticker, start, end') \<Rightarrow>
        let v = get_stock_data download ticker start end' in
        (v, \<lparr>cache = (cache s)(k \<mapsto> (v, now)), adapter_calls = adapter_calls s @ [k]\<rparr>))"

definition get_stock_data_cached ::
  "adapter \<Rightarrow> seconds \<Rightarrow> key \<Rightarrow> session \<Rightarrow> frame option \<times> session" where
  "get_stock_data_cached download now k s =
     (case cache s k of
        None \<Rightarrow> run_body download now k s
      | Some (v, stored) \<Rightarrow>
          if now < stored + ttl then (v, s) else run_body download now k s)"

subsection \<open>The ticker input\<close>


definition upper_char :: "char \<Rightarrow> char" where
  "upper_char c =
     (let n = (of_char c :: nat) in
      if 97 \<le> n \<and> n \<le> 122 then char_of (n - 32) else c)"

definition upper :: "string \<Rightarrow> string" where
  "upper s = map upper_char s"

definition isspace :: "char \<Rightarrow> bool" where
  "isspace c =
     (let n = (of_char c :: nat) in (9 \<le> n \<and> n \<le> 13) \<or> (28 \<le> n \<and> n \<le> 32))"

definition strip :: "string \<Rightarrow> string" where
  "strip s = rev (dropWhile isspace (rev (dropWhile isspace s)))"

definition ticker_input :: "string \<Rightarrow> string" where
  "ticker_input raw = strip (upper raw)"

subsection \<open>The metrics section and the table\<close>

record metrics =
  total_return :: "real option"
  avg_daily_return :: "real option"
  volatility :: "real option"
  max_drawdown :: "real option"

text \<open>Lines 70 to 73.\<close>

definition metrics_section :: "frame \<Rightarrow> py_error + metrics" where
  "metrics_section df =
     (case iloc_last (Cumulative_Return df) of
        Inl e \<Rightarrow> Inl e
      | Inr final \<Rightarrow>
          Inr \<lparr>total_return = final,
               avg_daily_return = series_mean (Daily_Return df),
               volatility = series_std (Daily_Return df),
               max_drawdown = series_min (Max_Drawdown df)\<rparr>)"

definition highlight_returns :: "real option \<Rightarrow> string" where
  "highlight_returns val =
     (case val of
        None \<Rightarrow> ''''
      | Some v \<Rightarrow> ''color: '' @ (if v > 0 then ''green'' else ''red''))"

subsection \<open>One run of the script\<close>

text \<open>
  \<open>st.stop()\<close> ends the run: after the range message nothing else is executed, after the
  no-data message no chart, card or table is produced. A rendered page carries the frame,
  the four numbers of the cards and the style of each cell of the Daily Return column.
  Both reads of \<open>date.today()\<close> in line 23 are taken on the same day.
\<close>

record page =
  shown :: frame
  cards :: metrics
  styles :: "string list"

datatype outcome = RangeError | NoDataError | Raised py_error | Rendered page

definition render :: "frame option \<Rightarrow> outcome" where
  "render r =
     (case r of
        None \<Rightarrow> NoDataError
      | Some df \<Rightarrow>
          (case metrics_section df of
             Inl e \<Rightarrow> Raised e
           | Inr m \<Rightarrow>
               Rendered \<lparr>shown = df, cards = m,
                         styles = map highlight_returns (Daily_Return df)\<rparr>))"

definition dashboard ::
  "adapter \<Rightarrow> date \<Rightarrow> seconds \<Rightarrow> string \<Rightarrow> date \<Rightarrow> date \<Rightarrow> session \<Rightarrow> outcome \<times> session" where
  "dashboard download today now raw start_date end_date s =
     (let ticker = ticker_input raw in
      if start_date > end_date \<or> start_date > today \<or> end_date > today
      then (RangeError, s)
      else case get_stock_data_cached download now (ticker, start_date, end_date) s of
             (df, s') \<Rightarrow> (render df, s'))"

subsection \<open>Reference notions for the summary numbers\<close>

text \<open>
  The arithmetic mean and the sample standard deviation as the specification names them,
  on a list of defined values. The sample standard deviation divides by \<open>n - 1\<close> and
  is undefined for fewer than two values.
\<close>

definition spec_mean :: "real list \<Rightarrow> real" where
  "spec_mean xs = sum_list xs / real (length xs)"

definition spec_sample_std :: "real list \<Rightarrow> real option" where
  "spec_sample_std xs =
     (if length xs < 2 then None
      else Some (sqrt ((\<Sum>x\<leftarrow>xs. (x - spec_mean xs)\<^sup>2) / (real (length xs) - 1))))"

text \<open>The session of a freshly started process: nothing stored, nothing fetched.\<close>

definition empty_session :: session where
  "empty_session = \<lparr>cache = Map.empty, adapter_calls = []\<rparr>"

section \<open>Properties\<close>

subsection \<open>The range check\<close>

lemma render_not_range_error: "render r \<noteq> RangeError"
  by (simp add: render_def split: option.split sum.split)

text \<open>
  Claim C7. The run ends with the range error exactly when the start is after the end, or
  the start or the end is after today (so a range of the single day today is accepted);
  and then the session is left as it was: nothing is fetched, the data provider is not
  called and nothing is stored.
\<close>

theorem validate_range_error_iff:
  "(fst (dashboard download today now raw start_date end_date s) = RangeError
      \<longleftrightarrow> start_date > end_date \<or> start_date > today \<or> end_date > today)
   \<and> (start_date > end_date \<or> start_date > today \<or> end_date > today
      \<longrightarrow> snd (dashboard download today now raw start_date end_date s) = s)
   \<and> fst (dashboard download today now raw today today s) \<noteq> RangeError"
  by (simp add: dashboard_def render_not_range_error split: prod.split)

theorem validate_range_error_iff_witness:
  "(101::int) > 100
   \<and> fst (dashboard (\<lambda>_ _ _. []) 100 0 ''aapl'' 101 100 empty_session) = RangeError
   \<and> snd (dashboard (\<lambda>_ _ _. []) 100 0 ''aapl'' 101 100 empty_session) = empty_session
   \<and> fst (dashboard (\<lambda>_ _ _. []) 100 0 ''aapl'' 100 100 empty_session) \<noteq> RangeError"
  using validate_range_error_iff [where download = "\<lambda>_ _ _. []" and today = 100 and now = 0
      and raw = "''aapl''" and start_date = 101 and end_date = 100 and s = empty_session]
  by simp

subsection \<open>Shapes of the columns\<close>

lemma length_pct_change: "length (pct_change xs) = length xs"
  by (cases xs) simp_all

lemma pct_change_nth:
  "1 \<le> i \<Longrightarrow> i < length xs \<Longrightarrow> pct_change xs ! i = pct (xs ! (i - 1)) (xs ! i)"
  by (cases xs; cases i) simp_all

lemma pct_change_hd: "xs \<noteq> [] \<Longrightarrow> pct_change xs ! 0 = None"
  by (cases xs) simp_all

lemma length_cumprod_from: "length (cumprod_from acc xs) = length xs"
  by (induction acc xs rule: cumprod_from.induct) simp_all

lemma length_cummax_from: "length (cummax_from m xs) = length xs"
  by (induction xs arbitrary: m) simp_all

lemma length_cummax: "length (cummax xs) = length xs"
  by (cases xs) (simp_all add: length_cummax_from)

lemma add_returns_lengths:
  "length (Close (add_returns data)) = length data"
  "length (Daily_Return (add_returns data)) = length data"
  "length (Cumulative_Return (add_returns data)) = length data"
  "length (Max_Drawdown (add_returns data)) = length data"
  by (simp_all add: add_returns_def Let_def cumprod_def length_pct_change
      length_cumprod_from length_cummax)

lemma add_returns_cols:
  "Close (add_returns data) = map snd data"
  "Daily_Return (add_returns data) = pct_change (map snd data)"
  by (simp_all add: add_returns_def Let_def)

lemma get_stock_data_Some:
  "get_stock_data download ticker start end' = Some df \<longleftrightarrow>
   download ticker start end' \<noteq> [] \<and> df = add_returns (download ticker start end')"
  by (auto simp: get_stock_data_def Let_def)

subsection \<open>Daily returns\<close>

text \<open>
  Claim C3. In every frame \<open>get_stock_data\<close> returns, the Daily Return column is as long
  as the downloaded series, its first entry is NaN, and entry \<open>i \<ge> 1\<close> is
  \<open>Close[i] / Close[i-1] - 1\<close> (for a non-zero previous close).
\<close>

theorem daily_return_defn:
  assumes "get_stock_data download ticker start end' = Some df"
  shows "Close df = map snd (download ticker start end')
       \<and> length (Daily_Return df) = length (download ticker start end')
       \<and> Daily_Return df ! 0 = None
       \<and> (\<forall>i. 1 \<le> i \<and> i < length (Close df) \<and> Close df ! (i - 1) \<noteq> 0 \<longrightarrow>
              Daily_Return df ! i = Some (Close df ! i / Close df ! (i - 1) - 1))"
proof -
  let ?data = "download ticker start end'"
  from assms have ne: "?data \<noteq> []" and df: "df = add_returns ?data"
    by (simp_all add: get_stock_data_Some)
  have c: "Close df = map snd ?data"
    by (simp add: df add_returns_cols)
  have l: "length (Daily_Return df) = length ?data"
    by (simp add: df add_returns_lengths)
  have z: "Daily_Return df ! 0 = None"
    using ne by (simp add: df add_returns_cols pct_change_hd)
  have n: "\<forall>i. 1 \<le> i \<and> i < length (Close df) \<and> Close df ! (i - 1) \<noteq> 0 \<longrightarrow>
              Daily_Return df ! i = Some (Close df ! i / Close df ! (i - 1) - 1)"
    by (simp add: df add_returns_cols pct_change_nth pct_def fdiv_def)
  from c l z n show ?thesis by blast
qed

theorem daily_return_defn_witness:
  "get_stock_data (\<lambda>_ _ _. [(1, 100), (2, 110), (3, 99)]) ''AAPL'' 1 3
     = Some (add_returns [(1, 100), (2, 110), (3, 99)])
   \<and> Daily_Return (add_returns [(1, 100), (2, 110), (3, 99)]) = [None, Some (1 / 10), Some (- 1 / 10)]
   \<and> (1::nat) \<le> 2 \<and> 2 < length (Close (add_returns [(1, 100), (2, 110), (3, 99)]))
   \<and> Close (add_returns [(1, 100), (2, 110), (3, 99)]) ! (2 - 1) \<noteq> 0
   \<and> Daily_Return (add_returns [(1, 100), (2, 110), (3, 99)]) ! 2 = Some (99 / 110 - 1)"
proof -
  have h: "get_stock_data (\<lambda>_ _ _. [(1, 100), (2, 110), (3, 99)]) ''AAPL'' 1 3
     = Some (add_returns [(1, 100), (2, 110), (3, 99)])"
    by (simp add: get_stock_data_def)
  show ?thesis
    using h daily_return_defn [OF h]
    by (simp add: add_returns_def Let_def pct_def fdiv_def cumprod_def)
qed

subsection \<open>Cumulative returns\<close>

lemma cumprod_from_nth:
  "i < length xs \<Longrightarrow> xs ! i \<noteq> None \<Longrightarrow>
   cumprod_from acc xs ! i = Some (acc * (\<Prod>j\<le>i. case xs ! j of None \<Rightarrow> 1 | Some x \<Rightarrow> x))"
proof (induction acc xs arbitrary: i rule: cumprod_from.induct)
  case (1 acc)
  then show ?case by simp
next
  case (2 acc xs)
  then show ?case
    by (cases i) (simp_all add: prod.atMost_Suc_shift del: prod.atMost_Suc)
next
  case (3 acc x xs)
  then show ?case
    by (cases i) (simp_all add: prod.atMost_Suc_shift mult.assoc del: prod.atMost_Suc)
qed

lemma cumprod_from_None:
  "i < length xs \<Longrightarrow> xs ! i = None \<Longrightarrow> cumprod_from acc xs ! i = None"
proof (induction acc xs arbitrary: i rule: cumprod_from.induct)
  case (1 acc)
  then show ?case by simp
next
  case (2 acc xs)
  then show ?case by (cases i) simp_all
next
  case (3 acc x xs)
  then show ?case by (cases i) simp_all
qed

lemma cumulative_return_nth:
  assumes "i < length data" and "Daily_Return (add_returns data) ! i \<noteq> None"
  shows "Cumulative_Return (add_returns data) ! i =
         Some ((\<Prod>j\<le>i. 1 + (case Daily_Return (add_returns data) ! j of None \<Rightarrow> 0 | Some r \<Rightarrow> r)) - 1)"
proof -
  let ?d = "pct_change (map snd data)"
  let ?xs = "map (map_option (\<lambda>r. 1 + r)) ?d"
  have len: "length ?d = length data"
    by (simp add: length_pct_change)
  have d: "?d ! i \<noteq> None"
    using assms(2) by (simp add: add_returns_cols)
  have xi: "?xs ! i \<noteq> None"
    using assms(1) d len by simp
  have fac: "(case ?xs ! j of None \<Rightarrow> 1 | Some x \<Rightarrow> x)
             = 1 + (case ?d ! j of None \<Rightarrow> 0 | Some r \<Rightarrow> r)" if "j \<le> i" for j
    using that assms(1) len by (simp split: option.split)
  have "cumprod_from 1 ?xs ! i
        = Some (1 * (\<Prod>j\<le>i. case ?xs ! j of None \<Rightarrow> 1 | Some x \<Rightarrow> x))"
    using assms(1) xi len by (intro cumprod_from_nth) simp_all
  also have "(\<Prod>j\<le>i. case ?xs ! j of None \<Rightarrow> 1 | Some x \<Rightarrow> x)
             = (\<Prod>j\<le>i. 1 + (case ?d ! j of None \<Rightarrow> 0 | Some r \<Rightarrow> r))"
    by (rule prod.cong) (simp_all add: fac)
  finally show ?thesis
    using assms(1) len
    by (simp add: add_returns_def Let_def cumprod_def length_cumprod_from)
qed

lemma daily_return_nth:
  assumes "1 \<le> i" and "i < length data" and "snd (data ! (i - 1)) \<noteq> 0"
  shows "Daily_Return (add_returns data) ! i = Some (snd (data ! i) / snd (data ! (i - 1)) - 1)"
  using assms by (simp add: add_returns_cols pct_change_nth pct_def fdiv_def)

lemma cumulative_return_hd:
  "data \<noteq> [] \<Longrightarrow> Cumulative_Return (add_returns data) ! 0 = None"
  by (cases data) (simp_all add: add_returns_def Let_def cumprod_def)

text \<open>
  Claim C2, as the program has it. The Cumulative Return column is NaN at index 0 (the
  cumulative product keeps the NaN of the first daily return there). At every index
  \<open>i \<ge> 1\<close> of a series of non-zero prices it is the product of \<open>1 + DailyReturn[j]\<close> for
  \<open>j\<close> from 0 to \<open>i\<close>, with the undefined first daily return counted as 0, minus 1. For the
  closes 100, 110, 99 the last entry is \<open>-0.01\<close>.
\<close>

theorem cumulative_return_defn:
  assumes "get_stock_data download ticker start end' = Some df"
      and "\<forall>c\<in>set (Close df). c \<noteq> 0"
  shows "length (Cumulative_Return df) = length (download ticker start end')
       \<and> Cumulative_Return df ! 0 = None
       \<and> (\<forall>i. 1 \<le> i \<and> i < length (Close df) \<longrightarrow>
              Cumulative_Return df ! i =
              Some ((\<Prod>j\<le>i. 1 + (case Daily_Return df ! j of None \<Rightarrow> 0 | Some r \<Rightarrow> r)) - 1))
       \<and> last (Cumulative_Return (add_returns [(d0, 100), (d1, 110), (d2, 99)])) = Some (- 1 / 100)"
proof -
  let ?data = "download ticker start end'"
  from assms(1) have ne: "?data \<noteq> []" and df: "df = add_returns ?data"
    by (simp_all add: get_stock_data_Some)
  have l: "length (Cumulative_Return df) = length ?data"
    by (simp add: df add_returns_lengths)
  have z: "Cumulative_Return df ! 0 = None"
    using ne by (simp add: df cumulative_return_hd)
  have n: "Cumulative_Return df ! i =
           Some ((\<Prod>j\<le>i. 1 + (case Daily_Return df ! j of None \<Rightarrow> 0 | Some r \<Rightarrow> r)) - 1)"
    if "1 \<le> i" "i < length (Close df)" for i
  proof -
    have i: "i < length ?data"
      using that(2) by (simp add: df add_returns_lengths)
    have "snd (?data ! (i - 1)) \<in> set (Close df)"
      using i by (simp add: df add_returns_cols)
    then have "snd (?data ! (i - 1)) \<noteq> 0"
      using assms(2) by blast
    then have "Daily_Return df ! i \<noteq> None"
      using daily_return_nth [OF that(1) i] by (simp add: df)
    then show ?thesis
      unfolding df by (rule cumulative_return_nth [OF i])
  qed
  have e: "last (Cumulative_Return (add_returns [(d0, 100), (d1, 110), (d2, 99)])) = Some (- 1 / 100)"
    by (simp add: add_returns_def Let_def cumprod_def pct_def fdiv_def)
  from l z n e show ?thesis by blast
qed

theorem cumulative_return_defn_witness:
  "get_stock_data (\<lambda>_ _ _. [(1, 100), (2, 110), (3, 99)]) ''AAPL'' 1 3
     = Some (add_returns [(1, 100), (2, 110), (3, 99)])
   \<and> list_all (\<lambda>c. c \<noteq> 0) (Close (add_returns [(1, 100), (2, 110), (3, 99)]))
   \<and> Cumulative_Return (add_returns [(1, 100), (2, 110), (3, 99)]) ! 0 = None
   \<and> Cumulative_Return (add_returns [(1, 100), (2, 110), (3, 99)]) ! 2
       = Some ((\<Prod>j\<le>2. 1 + (case Daily_Return (add_returns [(1, 100), (2, 110), (3, 99)]) ! j
                                  of None \<Rightarrow> 0 | Some r \<Rightarrow> r)) - 1)
   \<and> Cumulative_Return (add_returns [(1, 100), (2, 110), (3, 99)])
       = [None, Some (1 / 10), Some (- 1 / 100)]"
proof -
  have h: "get_stock_data (\<lambda>_ _ _. [(1, 100), (2, 110), (3, 99)]) ''AAPL'' 1 3
     = Some (add_returns [(1, 100), (2, 110), (3, 99)])"
    by (simp add: get_stock_data_def)
  have nz: "\<forall>c\<in>set (Close (add_returns [(1, 100), (2, 110), (3, 99)])). c \<noteq> 0"
    by (simp add: add_returns_cols)
  have v: "Cumulative_Return (add_returns [(1, 100), (2, 110), (3, 99)])
       = [None, Some (1 / 10), Some (- 1 / 100)]"
    by (simp add: add_returns_def Let_def cumprod_def pct_def fdiv_def)
  have two: "(1::nat) \<le> 2 \<and> 2 < length (Close (add_returns [(1, 100), (2, 110), (3, 99)]))"
    by (simp add: add_returns_cols)
  from cumulative_return_defn [OF h nz] two h nz v show ?thesis
    unfolding list_all_iff by blast
qed

text \<open>
  Claim C2 as stated gives \<open>(1 + 0) - 1 = 0\<close> at index 0; the column holds NaN there.
\<close>

theorem cumulative_return_first_counterexample:
  "get_stock_data (\<lambda>_ _ _. [(1, 100), (2, 110), (3, 99)]) ''AAPL'' 1 3
     = Some (add_returns [(1, 100), (2, 110), (3, 99)])
   \<and> Cumulative_Return (add_returns [(1, 100), (2, 110), (3, 99)]) ! 0 = None
   \<and> Cumulative_Return (add_returns [(1, 100), (2, 110), (3, 99)]) ! 0
       \<noteq> Some ((\<Prod>j\<le>(0::nat). 1 + (case Daily_Return (add_returns [(1, 100), (2, 110), (3, 99)]) ! j
                                  of None \<Rightarrow> 0 | Some r \<Rightarrow> r)) - 1)"
  by (simp add: get_stock_data_def add_returns_def Let_def cumprod_def pct_def fdiv_def)

subsection \<open>Drawdown\<close>

lemma cummax_from_nth:
  "i < length xs \<Longrightarrow> cummax_from m xs ! i = Max (insert m (set (take (Suc i) xs)))"
proof (induction xs arbitrary: m i)
  case Nil
  then show ?case by simp
next
  case (Cons x xs)
  show ?case
  proof (cases i)
    case 0
    then show ?thesis by (simp add: max.commute)
  next
    case (Suc k)
    with Cons.prems have k: "k < length xs" by simp
    then have ne: "set (take (Suc k) xs) \<noteq> {}"
      by (cases xs) simp_all
    have "cummax_from m (x # xs) ! i = Max (insert (max m x) (set (take (Suc k) xs)))"
      using Cons.IH [OF k] Suc by simp
    also have "\<dots> = max (max m x) (Max (set (take (Suc k) xs)))"
      using ne by simp
    also have "\<dots> = Max (insert m (insert x (set (take (Suc k) xs))))"
      using ne by (simp add: max.assoc)
    finally show ?thesis using Suc by simp
  qed
qed

lemma cummax_nth:
  assumes "i < length xs"
  shows "cummax xs ! i = Max (set (take (Suc i) xs))"
proof (cases xs)
  case Nil
  with assms show ?thesis by simp
next
  case (Cons x ys)
  show ?thesis
  proof (cases i)
    case 0
    then show ?thesis using Cons by simp
  next
    case (Suc k)
    then show ?thesis using Cons assms by (simp add: cummax_from_nth)
  qed
qed

lemma running_max_bounds:
  fixes xs :: "real list"
  assumes "i < length xs" and "\<forall>c\<in>set xs. 0 < c"
  shows "xs ! i \<le> Max (set (take (Suc i) xs))" and "0 < Max (set (take (Suc i) xs))"
proof -
  have mem: "xs ! i \<in> set (take (Suc i) xs)"
    using assms(1) by (metis in_set_conv_nth length_take lessI min_less_iff_conj nth_take)
  then show le: "xs ! i \<le> Max (set (take (Suc i) xs))"
    by simp
  have "0 < xs ! i"
    using assms by simp
  with le show "0 < Max (set (take (Suc i) xs))"
    by linarith
qed

lemma drawdown_nth:
  assumes "i < length data"
  shows "Max_Drawdown (add_returns data) ! i =
         map_option (\<lambda>q. q - 1)
           (fdiv (snd (data ! i)) (Max (set (take (Suc i) (map snd data)))))"
  using assms by (simp add: add_returns_def Let_def length_cummax cummax_nth)

text \<open>
  Claim C4. For a series of positive closes, entry \<open>i\<close> of the Max Drawdown column is
  \<open>Close[i] / max(Close[0..i]) - 1\<close>; it is never positive, and it is 0 exactly when
  \<open>Close[i]\<close> is the running maximum. The closes 100, 120, 90 give 0, 0, \<open>-0.25\<close>.
\<close>

theorem drawdown_defn:
  assumes "get_stock_data download ticker start end' = Some df"
      and "\<forall>c\<in>set (Close df). 0 < c"
  shows "length (Max_Drawdown df) = length (download ticker start end')
       \<and> (\<forall>i. i < length (Close df) \<longrightarrow>
              Max_Drawdown df ! i
                = Some (Close df ! i / Max (set (take (Suc i) (Close df))) - 1)
              \<and> Close df ! i / Max (set (take (Suc i) (Close df))) - 1 \<le> 0
              \<and> (Close df ! i / Max (set (take (Suc i) (Close df))) - 1 = 0
                   \<longleftrightarrow> Close df ! i = Max (set (take (Suc i) (Close df)))))
       \<and> Max_Drawdown (add_returns [(d0, 100), (d1, 120), (d2, 90)])
           = [Some 0, Some 0, Some (- 1 / 4)]"
proof -
  let ?data = "download ticker start end'"
  from assms(1) have df: "df = add_returns ?data"
    by (simp add: get_stock_data_Some)
  have c: "Close df = map snd ?data"
    by (simp add: df add_returns_cols)
  have l: "length (Max_Drawdown df) = length ?data"
    by (simp add: df add_returns_lengths)
  have n: "Max_Drawdown df ! i
             = Some (Close df ! i / Max (set (take (Suc i) (Close df))) - 1)
           \<and> Close df ! i / Max (set (take (Suc i) (Close df))) - 1 \<le> 0
           \<and> (Close df ! i / Max (set (take (Suc i) (Close df))) - 1 = 0
                \<longleftrightarrow> Close df ! i = Max (set (take (Suc i) (Close df))))"
    if i: "i < length (Close df)" for i
  proof -
    let ?m = "Max (set (take (Suc i) (Close df)))"
    have le: "Close df ! i \<le> ?m" and pos: "0 < ?m"
      using running_max_bounds [OF i assms(2)] by simp_all
    have i': "i < length ?data"
      using i by (simp add: c)
    have "Max_Drawdown df ! i = Some (Close df ! i / ?m - 1)"
      using pos i' by (simp add: df drawdown_nth fdiv_def add_returns_cols)
    moreover have "Close df ! i / ?m - 1 \<le> 0"
      using le pos by (simp add: divide_le_eq)
    moreover have "Close df ! i / ?m - 1 = 0 \<longleftrightarrow> Close df ! i = ?m"
      using pos by (simp add: field_simps)
    ultimately show ?thesis by blast
  qed
  have e: "Max_Drawdown (add_returns [(d0, 100), (d1, 120), (d2, 90)])
           = [Some 0, Some 0, Some (- 1 / 4)]"
    by (simp add: add_returns_def Let_def fdiv_def)
  from l n e show ?thesis by blast
qed

theorem drawdown_defn_witness:
  "get_stock_data (\<lambda>_ _ _. [(1, 100), (2, 120), (3, 90)]) ''AAPL'' 1 3
     = Some (add_returns [(1, 100), (2, 120), (3, 90)])
   \<and> list_all (\<lambda>c. 0 < c) (Close (add_returns [(1, 100), (2, 120), (3, 90)]))
   \<and> (2::nat) < length (Close (add_returns [(1, 100), (2, 120), (3, 90)]))
   \<and> Max_Drawdown (add_returns [(1, 100), (2, 120), (3, 90)]) ! 2
       = Some (Close (add_returns [(1, 100), (2, 120), (3, 90)]) ! 2
               / Max (set (take (Suc 2) (Close (add_returns [(1, 100), (2, 120), (3, 90)])))) - 1)
   \<and> Max_Drawdown (add_returns [(1, 100), (2, 120), (3, 90)]) = [Some 0, Some 0, Some (- 1 / 4)]"
proof -
  have h: "get_stock_data (\<lambda>_ _ _. [(1, 100), (2, 120), (3, 90)]) ''AAPL'' 1 3
     = Some (add_returns [(1, 100), (2, 120), (3, 90)])"
    by (simp add: get_stock_data_def)
  have pos: "\<forall>c\<in>set (Close (add_returns [(1, 100), (2, 120), (3, 90)])). 0 < c"
    by (simp add: add_returns_cols)
  have two: "(2::nat) < length (Close (add_returns [(1, 100), (2, 120), (3, 90)]))"
    by (simp add: add_returns_cols)
  from drawdown_defn [OF h pos, of 1 2 3] two h pos show ?thesis
    unfolding list_all_iff by blast
qed

subsection \<open>The four summary numbers\<close>

lemma dropna_all_defined: "None \<notin> set xs \<Longrightarrow> dropna xs = map the xs"
  by (induction xs rule: dropna.induct) simp_all

lemma pct_change_tl_defined:
  assumes "\<forall>c\<in>set xs. c \<noteq> 0"
  shows "None \<notin> set (tl (pct_change xs))"
proof (cases xs)
  case Nil
  then show ?thesis by simp
next
  case (Cons x ys)
  have "pct p c \<noteq> None" if "(p, c) \<in> set (zip (x # ys) ys)" for p c
  proof -
    from that have "p \<in> set (x # ys)" by (rule set_zip_leftD)
    with assms Cons have "p \<noteq> 0" by blast
    then show ?thesis by (simp add: pct_def fdiv_def)
  qed
  then have h: "\<forall>(p, c)\<in>set (zip (x # ys) ys). pct p c \<noteq> None"
    by blast
  show ?thesis
  proof
    assume "None \<in> set (tl (pct_change xs))"
    then obtain p c where "(p, c) \<in> set (zip (x # ys) ys)" and "pct p c = None"
      using Cons by (auto simp del: zip_Cons_Cons)
    with h show False by fastforce
  qed
qed

lemma pct_change_split: "xs \<noteq> [] \<Longrightarrow> pct_change xs = None # tl (pct_change xs)"
  by (cases xs) simp_all

lemma dropna_daily_return:
  assumes "data \<noteq> []" and "\<forall>c\<in>set (map snd data). c \<noteq> 0"
  shows "dropna (Daily_Return (add_returns data)) = map the (tl (Daily_Return (add_returns data)))"
proof -
  let ?d = "pct_change (map snd data)"
  have "?d = None # tl ?d"
    using assms(1) by (intro pct_change_split) simp
  then have "dropna ?d = dropna (tl ?d)"
    by (metis dropna.simps(2))
  also have "\<dots> = map the (tl ?d)"
    using pct_change_tl_defined [OF assms(2)] by (rule dropna_all_defined)
  finally show ?thesis
    by (simp add: add_returns_cols)
qed

lemma drawdown_defined:
  assumes "\<forall>c\<in>set (map snd data). 0 < c"
  shows "None \<notin> set (Max_Drawdown (add_returns data))"
proof
  assume "None \<in> set (Max_Drawdown (add_returns data))"
  then obtain i where i: "i < length data" and n: "Max_Drawdown (add_returns data) ! i = None"
    by (metis in_set_conv_nth add_returns_lengths(4))
  have "0 < Max (set (take (Suc i) (map snd data)))"
    using i assms by (intro running_max_bounds(2)) simp_all
  then show False
    using n i by (simp add: drawdown_nth fdiv_def)
qed

lemma series_min_all_defined:
  assumes "xs \<noteq> []" and "None \<notin> set xs"
  shows "series_min xs = Some (Min (the ` set xs))"
proof -
  from assms(2) have d: "dropna xs = map the xs"
    by (rule dropna_all_defined)
  from assms(1) obtain y ys where xs: "xs = y # ys"
    by (cases xs) auto
  have "dropna xs = the y # map the ys"
    using d xs by simp
  then have "series_min xs = Some (fold min (map the ys) (the y))"
    by (simp add: series_min_def)
  also have "fold min (map the ys) (the y) = Min (set (the y # map the ys))"
    by (simp only: Min.set_eq_fold)
  finally show ?thesis
    by (simp add: xs)
qed

lemma series_mean_defined:
  "dropna xs = vs \<Longrightarrow> vs \<noteq> [] \<Longrightarrow> series_mean xs = Some (spec_mean vs)"
  by (simp add: series_mean_def spec_mean_def Let_def)

lemma series_std_spec:
  "dropna xs = vs \<Longrightarrow> vs \<noteq> [] \<Longrightarrow> series_std xs = spec_sample_std vs"
proof -
  assume d: "dropna xs = vs" and ne: "vs \<noteq> []"
  show ?thesis
  proof (cases "length vs < 2")
    case True
    then show ?thesis
      by (simp add: series_std_def spec_sample_std_def d Let_def)
  next
    case False
    then have r: "real (length vs - 1) = real (length vs) - 1"
      by simp
    have "(\<Sum>v\<leftarrow>vs. (sum_list vs / real (length vs) - v)\<^sup>2)
          = (\<Sum>v\<leftarrow>vs. (v - sum_list vs / real (length vs))\<^sup>2)"
      by (simp add: power2_commute)
    with False r show ?thesis
      by (simp add: series_std_def spec_sample_std_def spec_mean_def d Let_def)
  qed
qed

text \<open>
  Claim C5. For a series of at least two positive closes the metrics section computes:
  the total return as the last entry of the Cumulative Return column; the average daily
  return as the mean of the daily returns at indices 1 to last, all of which are defined;
  the volatility as their sample standard deviation (undefined, NaN in the program, when
  there is a single return, that is for exactly two prices); the maximum drawdown as the
  minimum of the Max Drawdown column, all of whose entries are defined.
\<close>

theorem summary_numbers:
  assumes "get_stock_data download ticker start end' = Some df"
      and "2 \<le> length (Close df)"
      and "\<forall>c\<in>set (Close df). 0 < c"
  shows "\<exists>m. metrics_section df = Inr m
           \<and> total_return m = Cumulative_Return df ! (length (Close df) - 1)
           \<and> None \<notin> set (tl (Daily_Return df))
           \<and> length (tl (Daily_Return df)) = length (Close df) - 1
           \<and> avg_daily_return m = Some (spec_mean (map the (tl (Daily_Return df))))
           \<and> volatility m = spec_sample_std (map the (tl (Daily_Return df)))
           \<and> None \<notin> set (Max_Drawdown df)
           \<and> max_drawdown m = Some (Min (the ` set (Max_Drawdown df)))"
proof -
  let ?data = "download ticker start end'"
  from assms(1) have ne: "?data \<noteq> []" and df: "df = add_returns ?data"
    by (simp_all add: get_stock_data_Some)
  have c: "Close df = map snd ?data"
    by (simp add: df add_returns_cols)
  have len: "2 \<le> length ?data"
    using assms(2) by (simp add: c)
  have nz: "\<forall>c\<in>set (map snd ?data). c \<noteq> 0"
    using assms(3) unfolding c by fastforce
  have pos: "\<forall>c\<in>set (map snd ?data). 0 < c"
    using assms(3) unfolding c .
  have cne: "Cumulative_Return df \<noteq> []"
    using ne by (metis add_returns_lengths(3) df length_0_conv)
  have lc: "length (Cumulative_Return df) = length (Close df)"
    by (simp add: df add_returns_lengths)
  have tot: "iloc_last (Cumulative_Return df) = Inr (Cumulative_Return df ! (length (Close df) - 1))"
    using cne lc by (simp add: iloc_last_def last_conv_nth)
  have dn: "dropna (Daily_Return df) = map the (tl (Daily_Return df))"
    unfolding df using ne nz by (rule dropna_daily_return)
  have tl_def: "None \<notin> set (tl (Daily_Return df))"
    using pct_change_tl_defined [OF nz] by (simp add: df add_returns_cols)
  have tl_len: "length (tl (Daily_Return df)) = length (Close df) - 1"
    by (simp add: df add_returns_lengths)
  have vs_ne: "map the (tl (Daily_Return df)) \<noteq> []"
    using tl_len assms(2) by (cases "tl (Daily_Return df)") simp_all
  have dd_def: "None \<notin> set (Max_Drawdown df)"
    unfolding df using pos by (rule drawdown_defined)
  have dd_ne: "Max_Drawdown df \<noteq> []"
    using ne by (metis add_returns_lengths(4) df length_0_conv)
  have avg: "series_mean (Daily_Return df) = Some (spec_mean (map the (tl (Daily_Return df))))"
    using dn vs_ne by (rule series_mean_defined)
  have vol: "series_std (Daily_Return df) = spec_sample_std (map the (tl (Daily_Return df)))"
    using dn vs_ne by (rule series_std_spec)
  have mn: "series_min (Max_Drawdown df) = Some (Min (the ` set (Max_Drawdown df)))"
    using dd_ne dd_def by (rule series_min_all_defined)
  show ?thesis
    using tot avg vol mn tl_def tl_len dd_def by (simp add: metrics_section_def)
qed

theorem summary_numbers_witness:
  "get_stock_data (\<lambda>_ _ _. [(1, 100), (2, 110), (3, 99)]) ''AAPL'' 1 3
     = Some (add_returns [(1, 100), (2, 110), (3, 99)])
   \<and> 2 \<le> length (Close (add_returns [(1, 100), (2, 110), (3, 99)]))
   \<and> list_all (\<lambda>c. 0 < c) (Close (add_returns [(1, 100), (2, 110), (3, 99)]))
   \<and> (\<exists>m. metrics_section (add_returns [(1, 100), (2, 110), (3, 99)]) = Inr m
          \<and> total_return m = Some (- 1 / 100)
          \<and> avg_daily_return m = Some 0
          \<and> volatility m = spec_sample_std [1 / 10, - 1 / 10]
          \<and> max_drawdown m = Some (- 1 / 10))"
proof -
  have h: "get_stock_data (\<lambda>_ _ _. [(1, 100), (2, 110), (3, 99)]) ''AAPL'' 1 3
     = Some (add_returns [(1, 100), (2, 110), (3, 99)])"
    by (simp add: get_stock_data_def)
  have two: "2 \<le> length (Close (add_returns [(1, 100), (2, 110), (3, 99)]))"
    by (simp add: add_returns_cols)
  have pos: "\<forall>c\<in>set (Close (add_returns [(1, 100), (2, 110), (3, 99)])). 0 < c"
    by (simp add: add_returns_cols)
  have cols: "Close (add_returns [(1, 100), (2, 110), (3, 99)]) = [100, 110, 99]"
    "Daily_Return (add_returns [(1, 100), (2, 110), (3, 99)]) = [None, Some (1 / 10), Some (- 1 / 10)]"
    "Cumulative_Return (add_returns [(1, 100), (2, 110), (3, 99)]) = [None, Some (1 / 10), Some (- 1 / 100)]"
    "Max_Drawdown (add_returns [(1, 100), (2, 110), (3, 99)]) = [Some 0, Some 0, Some (- 1 / 10)]"
    by (simp_all add: add_returns_def Let_def cumprod_def pct_def fdiv_def)
  from summary_numbers [OF h two pos] obtain m where
    "metrics_section (add_returns [(1, 100), (2, 110), (3, 99)]) = Inr m"
    "total_return m = Some (- 1 / 100)"
    "avg_daily_return m = Some 0"
    "volatility m = spec_sample_std [1 / 10, - 1 / 10]"
    "max_drawdown m = Some (- 1 / 10)"
    by (auto simp: cols spec_mean_def)
  with h two pos show ?thesis
    unfolding list_all_iff by blast
qed

subsection \<open>A series of one point\<close>

text \<open>
  Claim C1, as the program has it. For a series of exactly one point with a positive
  close, the three derived columns have length 1; the daily and the cumulative return
  are NaN, the drawdown is 0 (the price is its own running maximum). Total return,
  average daily return and volatility are NaN; the maximum drawdown is 0, not NaN.
\<close>

theorem single_point_metrics:
  assumes "download ticker start end' = [(d, p)]" and "0 < p"
  shows "get_stock_data download ticker start end'
           = Some \<lparr>Index = [d], Close = [p], Daily_Return = [None],
                    Cumulative_Return = [None], Max_Drawdown = [Some 0]\<rparr>
       \<and> metrics_section \<lparr>Index = [d], Close = [p], Daily_Return = [None],
                            Cumulative_Return = [None], Max_Drawdown = [Some 0]\<rparr>
           = Inr \<lparr>total_return = None, avg_daily_return = None, volatility = None,
                   max_drawdown = Some 0\<rparr>"
  using assms
  by (simp add: get_stock_data_def add_returns_def Let_def cumprod_def fdiv_def
      metrics_section_def iloc_last_def series_mean_def series_std_def series_min_def)

theorem single_point_metrics_witness:
  "(\<lambda>_ _ _. [(1, 100)]) ''AAPL'' (1::date) (1::date) = [(1::date, 100::real)]
   \<and> (0::real) < 100
   \<and> get_stock_data (\<lambda>_ _ _. [(1, 100)]) ''AAPL'' 1 1
       = Some \<lparr>Index = [1], Close = [100], Daily_Return = [None],
                Cumulative_Return = [None], Max_Drawdown = [Some 0]\<rparr>
   \<and> metrics_section \<lparr>Index = [1], Close = [100], Daily_Return = [None],
                        Cumulative_Return = [None], Max_Drawdown = [Some 0]\<rparr>
       = Inr \<lparr>total_return = None, avg_daily_return = None, volatility = None,
               max_drawdown = Some 0\<rparr>"
  using single_point_metrics [where download = "\<lambda>_ _ _. [(1, 100)]" and ticker = "''AAPL''"
      and start = 1 and end' = 1 and d = 1 and p = 100]
  by simp

text \<open>
  Claim C1 as stated asks for all four numbers to be NaN and for the first entry of every
  derived series to be undefined. For the one-point series with close 100 the maximum
  drawdown is 0 and the Max Drawdown column is \<open>[0]\<close>.
\<close>

theorem single_point_counterexample:
  "\<not> (\<exists>m. metrics_section (add_returns [(1, 100)]) = Inr m
          \<and> total_return m = None \<and> avg_daily_return m = None
          \<and> volatility m = None \<and> max_drawdown m = None)
   \<and> Max_Drawdown (add_returns [(1, 100)]) ! 0 \<noteq> None
   \<and> get_stock_data (\<lambda>_ _ _. [(1, 100)]) ''AAPL'' 1 1 = Some (add_returns [(1, 100)])"
  by (simp add: get_stock_data_def add_returns_def Let_def cumprod_def fdiv_def
      metrics_section_def iloc_last_def series_mean_def series_std_def series_min_def)

subsection \<open>No data\<close>

lemma metrics_section_nonempty:
  "data \<noteq> [] \<Longrightarrow> \<exists>m. metrics_section (add_returns data) = Inr m"
proof -
  assume "data \<noteq> []"
  then have "Cumulative_Return (add_returns data) \<noteq> []"
    by (metis add_returns_lengths(3) length_0_conv)
  then show ?thesis
    by (simp add: metrics_section_def iloc_last_def)
qed

lemma render_nonempty:
  "data \<noteq> [] \<Longrightarrow> \<exists>p. render (Some (add_returns data)) = Rendered p"
  using metrics_section_nonempty [of data] by (auto simp: render_def)

text \<open>
  Claim C6. \<open>get_stock_data\<close> returns the empty marker \<open>None\<close> exactly when the
  downloaded series is empty, and the run then stops with the no-data message before the
  metrics section. For every non-empty series, a single point included, it returns a
  frame with columns as long as the series, the metrics section raises nothing, and the
  page is rendered. On a valid range with nothing stored for the key, the run as a whole
  ends with the no-data message exactly when the downloaded series is empty.
\<close>

theorem no_data_iff_empty:
  "(get_stock_data download ticker start end' = None \<longleftrightarrow> download ticker start end' = [])
   \<and> (render (get_stock_data download ticker start end') = NoDataError
        \<longleftrightarrow> download ticker start end' = [])
   \<and> (download ticker start end' \<noteq> [] \<longrightarrow>
        (\<exists>df m p. get_stock_data download ticker start end' = Some df
           \<and> length (Daily_Return df) = length (download ticker start end')
           \<and> length (Cumulative_Return df) = length (download ticker start end')
           \<and> length (Max_Drawdown df) = length (download ticker start end')
           \<and> metrics_section df = Inr m
           \<and> render (Some df) = Rendered p))
   \<and> (\<not> (start > end' \<or> start > today \<or> end' > today)
        \<and> cache s (ticker_input raw, start, end') = None \<longrightarrow>
        (fst (dashboard download today now raw start end' s) = NoDataError
           \<longleftrightarrow> download (ticker_input raw) start end' = []))"
proof -
  let ?data = "download ticker start end'"
  have a: "get_stock_data download ticker start end' = None \<longleftrightarrow> ?data = []"
    by (simp add: get_stock_data_def Let_def)
  have r: "render (get_stock_data download t start end') = NoDataError
           \<longleftrightarrow> download t start end' = []" for t
  proof (cases "download t start end' = []")
    case True
    then show ?thesis by (simp add: get_stock_data_def render_def)
  next
    case False
    with render_nonempty [OF False] show ?thesis
      by (auto simp: get_stock_data_def)
  qed
  have c: "\<exists>df m p. get_stock_data download ticker start end' = Some df
           \<and> length (Daily_Return df) = length ?data
           \<and> length (Cumulative_Return df) = length ?data
           \<and> length (Max_Drawdown df) = length ?data
           \<and> metrics_section df = Inr m
           \<and> render (Some df) = Rendered p" if "?data \<noteq> []"
    using that metrics_section_nonempty [OF that] render_nonempty [OF that]
    by (auto simp: get_stock_data_def add_returns_lengths)
  have d: "fst (dashboard download today now raw start end' s) = NoDataError
           \<longleftrightarrow> download (ticker_input raw) start end' = []"
    if "\<not> (start > end' \<or> start > today \<or> end' > today)"
      and "cache s (ticker_input raw, start, end') = None"
    using that r [of "ticker_input raw"]
    by (simp add: dashboard_def get_stock_data_cached_def run_body_def Let_def)
  from a r [of ticker] c d show ?thesis
    by blast
qed

theorem no_data_iff_empty_witness:
  "(\<lambda>_ _ _. [(1, 100)]) ''AAPL'' (1::date) (1::date) \<noteq> ([] :: row list)
   \<and> (\<exists>p. render (get_stock_data (\<lambda>_ _ _. [(1, 100)]) ''AAPL'' 1 1) = Rendered p)
   \<and> \<not> ((1::date) > 1 \<or> (1::date) > 5 \<or> (1::date) > 5)
   \<and> cache empty_session (ticker_input ''aapl'', 1, 1) = None
   \<and> fst (dashboard (\<lambda>_ _ _. []) 5 0 ''aapl'' 1 1 empty_session) = NoDataError
   \<and> fst (dashboard (\<lambda>_ _ _. [(1, 100)]) 5 0 ''aapl'' 1 1 empty_session) \<noteq> NoDataError"
proof -
  have ne: "(\<lambda>_ _ _. [(1, 100)]) ''AAPL'' (1::date) (1::date) \<noteq> ([] :: row list)"
    by simp
  have ok: "\<not> ((1::date) > 1 \<or> (1::date) > 5 \<or> (1::date) > 5)"
    by simp
  have fresh: "cache empty_session (ticker_input ''aapl'', 1, 1) = None"
    by (simp add: empty_session_def)
  from no_data_iff_empty [where download = "\<lambda>_ _ _. [(1, 100)]" and ticker = "''AAPL''"
      and start = 1 and end' = 1 and today = 5 and now = 0 and raw = "''aapl''"
      and s = empty_session]
    no_data_iff_empty [where download = "\<lambda>_ _ _. []" and ticker = "''AAPL''"
      and start = 1 and end' = 1 and today = 5 and now = 0 and raw = "''aapl''"
      and s = empty_session]
    ne ok fresh
  show ?thesis
    by auto
qed

subsection \<open>The colours of the table\<close>

lemma render_Rendered:
  "render r = Rendered p \<Longrightarrow>
   r = Some (shown p) \<and> styles p = map highlight_returns (Daily_Return (shown p))"
  by (auto simp: render_def split: option.splits sum.splits)

lemma styles_of_page:
  "fst (dashboard download today now raw start_date end_date s) = Rendered p \<Longrightarrow>
   styles p = map highlight_returns (Daily_Return (shown p))"
  by (auto simp: dashboard_def Let_def split: if_splits prod.splits dest: render_Rendered)

lemma highlight_returns_cases:
  "highlight_returns None = ''''"
  "0 < v \<Longrightarrow> highlight_returns (Some v) = ''color: green''"
  "v \<le> 0 \<Longrightarrow> highlight_returns (Some v) = ''color: red''"
  by (simp_all add: highlight_returns_def)

text \<open>
  Claim C9, as the program has it. In the table of a rendered page there is one style per
  row of the frame shown, taken from the row's Daily Return: green for a positive return,
  red for a zero or negative one, no colour for an undefined one. So every row with a
  positive return is shown in a colour different from every row with a zero or negative
  return.
\<close>

theorem highlight_returns_colours:
  assumes "fst (dashboard download today now raw start_date end_date s) = Rendered p"
  shows "length (styles p) = length (Daily_Return (shown p))
       \<and> (\<forall>i. i < length (Daily_Return (shown p)) \<longrightarrow>
            (Daily_Return (shown p) ! i = None \<longrightarrow> styles p ! i = '''')
          \<and> (\<forall>v. Daily_Return (shown p) ! i = Some v \<and> 0 < v \<longrightarrow>
                 styles p ! i = ''color: green'')
          \<and> (\<forall>v. Daily_Return (shown p) ! i = Some v \<and> v \<le> 0 \<longrightarrow>
                 styles p ! i = ''color: red''))
       \<and> (\<forall>i j a b. i < length (Daily_Return (shown p)) \<and> j < length (Daily_Return (shown p))
              \<and> Daily_Return (shown p) ! i = Some a \<and> 0 < a
              \<and> Daily_Return (shown p) ! j = Some b \<and> b \<le> 0 \<longrightarrow>
              styles p ! i \<noteq> styles p ! j)"
proof -
  let ?d = "Daily_Return (shown p)"
  have st: "styles p = map highlight_returns ?d"
    using assms by (rule styles_of_page)
  then have len: "length (styles p) = length ?d"
    by simp
  have nth: "styles p ! i = highlight_returns (?d ! i)" if "i < length ?d" for i
    using that by (simp add: st)
  have rows: "(?d ! i = None \<longrightarrow> styles p ! i = '''')
          \<and> (\<forall>v. ?d ! i = Some v \<and> 0 < v \<longrightarrow> styles p ! i = ''color: green'')
          \<and> (\<forall>v. ?d ! i = Some v \<and> v \<le> 0 \<longrightarrow> styles p ! i = ''color: red'')"
    if "i < length ?d" for i
    using nth [OF that] by (simp add: highlight_returns_cases)
  have diff: "styles p ! i \<noteq> styles p ! j"
    if "i < length ?d" "j < length ?d" "?d ! i = Some a" "0 < a" "?d ! j = Some b" "b \<le> 0"
    for i j a b
    using nth [OF that(1)] nth [OF that(2)] that(3-6) by (simp add: highlight_returns_cases)
  from len rows diff show ?thesis
    by blast
qed

theorem highlight_returns_colours_witness:
  "\<exists>p. fst (dashboard (\<lambda>_ _ _. [(1, 100), (2, 110), (3, 99)]) 5 0 ''aapl'' 1 3 empty_session)
         = Rendered p
       \<and> Daily_Return (shown p) = [None, Some (1 / 10), Some (- 1 / 10)]
       \<and> length (styles p) = length (Daily_Return (shown p))
       \<and> styles p ! 0 = '''' \<and> styles p ! 1 = ''color: green'' \<and> styles p ! 2 = ''color: red''
       \<and> styles p ! 1 \<noteq> styles p ! 2"
proof -
  let ?rows = "[(1, 100), (2, 110), (3, 99)] :: row list"
  have d: "Daily_Return (add_returns ?rows) = [None, Some (1 / 10), Some (- 1 / 10)]"
    by (simp add: add_returns_def Let_def pct_def fdiv_def)
  obtain m where m: "metrics_section (add_returns ?rows) = Inr m"
    using metrics_section_nonempty [of ?rows] by auto
  define p where "p = \<lparr>shown = add_returns ?rows, cards = m,
                        styles = map highlight_returns (Daily_Return (add_returns ?rows))\<rparr>"
  have r: "fst (dashboard (\<lambda>_ _ _. ?rows) 5 0 ''aapl'' 1 3 empty_session) = Rendered p"
    by (simp add: dashboard_def get_stock_data_cached_def run_body_def get_stock_data_def
        empty_session_def render_def m p_def Let_def)
  have sh: "Daily_Return (shown p) = [None, Some (1 / 10), Some (- 1 / 10)]"
    by (simp add: p_def d)
  note t = highlight_returns_colours [OF r]
  from t have len: "length (styles p) = length (Daily_Return (shown p))"
    by blast
  from t have rows: "(Daily_Return (shown p) ! i = None \<longrightarrow> styles p ! i = '''')
          \<and> (\<forall>v. Daily_Return (shown p) ! i = Some v \<and> 0 < v \<longrightarrow>
                 styles p ! i = ''color: green'')
          \<and> (\<forall>v. Daily_Return (shown p) ! i = Some v \<and> v \<le> 0 \<longrightarrow>
                 styles p ! i = ''color: red'')"
    if "i < length (Daily_Return (shown p))" for i
    using that by blast
  have in_range: "0 < length (Daily_Return (shown p))" "1 < length (Daily_Return (shown p))"
    "2 < length (Daily_Return (shown p))"
    by (simp_all add: sh)
  have e0: "Daily_Return (shown p) ! 0 = None"
    by (simp add: sh)
  have e1: "Daily_Return (shown p) ! 1 = Some (1 / 10) \<and> (0::real) < 1 / 10"
    by (simp add: sh)
  have e2: "Daily_Return (shown p) ! 2 = Some (- 1 / 10) \<and> (- 1 / 10 :: real) \<le> 0"
    by (simp add: sh)
  have s0: "styles p ! 0 = ''''"
    using rows [OF in_range(1)] e0 by blast
  have s1: "styles p ! 1 = ''color: green''"
    using rows [OF in_range(2)] e1 by blast
  have s2: "styles p ! 2 = ''color: red''"
    using rows [OF in_range(3)] e2 by blast
  from r sh len s0 s1 s2 show ?thesis
    by (intro exI [of _ p]) simp
qed

text \<open>
  Claim C9 as stated separates non-negative from negative returns. For the closes 100,
  100, 90 the second row has a return of 0, which is non-negative, and the third a
  negative return; the table shows both red.
\<close>

theorem highlight_returns_zero_counterexample:
  "\<exists>p. fst (dashboard (\<lambda>_ _ _. [(1, 100), (2, 100), (3, 90)]) 5 0 ''aapl'' 1 3 empty_session)
         = Rendered p
       \<and> Daily_Return (shown p) = [None, Some 0, Some (- 1 / 10)]
       \<and> styles p = ['''', ''color: red'', ''color: red'']
       \<and> styles p ! 1 = styles p ! 2"
proof -
  let ?rows = "[(1, 100), (2, 100), (3, 90)] :: row list"
  have d: "Daily_Return (add_returns ?rows) = [None, Some 0, Some (- 1 / 10)]"
    by (simp add: add_returns_def Let_def pct_def fdiv_def)
  obtain m where m: "metrics_section (add_returns ?rows) = Inr m"
    using metrics_section_nonempty [of ?rows] by auto
  define p where "p = \<lparr>shown = add_returns ?rows, cards = m,
                        styles = map highlight_returns (Daily_Return (add_returns ?rows))\<rparr>"
  have r: "fst (dashboard (\<lambda>_ _ _. ?rows) 5 0 ''aapl'' 1 3 empty_session) = Rendered p"
    by (simp add: dashboard_def get_stock_data_cached_def run_body_def get_stock_data_def
        empty_session_def render_def m p_def Let_def)
  have "Daily_Return (shown p) = [None, Some 0, Some (- 1 / 10)]"
    "styles p = ['''', ''color: red'', ''color: red'']"
    by (simp_all add: p_def d highlight_returns_def)
  with r show ?thesis
    by (intro exI [of _ p]) simp
qed

subsection \<open>The cache\<close>

lemma run_body_result:
  "run_body download now (ticker, start, end') s =
     (get_stock_data download ticker start end',
      \<lparr>cache = (cache s)((ticker, start, end') \<mapsto> (get_stock_data download ticker start end', now)),
       adapter_calls = adapter_calls s @ [(ticker, start, end')]\<rparr>)"
  by (simp add: run_body_def Let_def)

lemma cached_hit:
  "cache s k = Some (v, stored) \<Longrightarrow> now < stored + ttl \<Longrightarrow>
   get_stock_data_cached download now k s = (v, s)"
  by (simp add: get_stock_data_cached_def)

lemma cached_miss:
  "cache s k = None \<or> (\<exists>v stored. cache s k = Some (v, stored) \<and> stored + ttl \<le> now) \<Longrightarrow>
   get_stock_data_cached download now k s = run_body download now k s"
  by (auto simp: get_stock_data_cached_def)

text \<open>
  Claim C8, as the program has it. Take one key and two calls at times \<open>t1 \<le> t2\<close> less
  than 3600 seconds apart. The data provider is called at most once for the pair. If the
  first call is a miss (nothing stored, or a stored value of age 3600 or more), it stores
  what it fetched, the empty marker included, and the second call returns the identical
  value without a call of the data provider. If both calls fall in the window of the
  same stored value (\<open>t2 < stored + 3600\<close>), both return that value and the session is
  unchanged. If the stored value expires between the two calls, the second call runs the
  body again: the data provider is called and its fresh result is returned.
\<close>

theorem cache_within_ttl:
  assumes "t1 \<le> t2" and "t2 - t1 < ttl"
      and "get_stock_data_cached dl1 t1 (ticker, start, end') s = (v1, s1)"
      and "get_stock_data_cached dl2 t2 (ticker, start, end') s1 = (v2, s2)"
  shows "length (adapter_calls s2) \<le> length (adapter_calls s) + 1
       \<and> (cache s (ticker, start, end') = None
            \<or> (\<exists>v stored. cache s (ticker, start, end') = Some (v, stored) \<and> stored + ttl \<le> t1)
          \<longrightarrow> v1 = get_stock_data dl1 ticker start end' \<and> v2 = v1 \<and> s2 = s1
              \<and> adapter_calls s2 = adapter_calls s @ [(ticker, start, end')])
       \<and> (\<forall>v stored. cache s (ticker, start, end') = Some (v, stored) \<and> t2 < stored + ttl
          \<longrightarrow> v1 = v \<and> v2 = v \<and> s2 = s)
       \<and> (\<forall>v stored. cache s (ticker, start, end') = Some (v, stored)
              \<and> t1 < stored + ttl \<and> stored + ttl \<le> t2
          \<longrightarrow> v1 = v \<and> v2 = get_stock_data dl2 ticker start end'
              \<and> adapter_calls s2 = adapter_calls s @ [(ticker, start, end')])"
proof -
  let ?k = "(ticker, start, end')"
  have miss: "v1 = get_stock_data dl1 ticker start end' \<and> v2 = v1 \<and> s2 = s1
              \<and> adapter_calls s2 = adapter_calls s @ [?k]"
    if m: "cache s ?k = None \<or> (\<exists>v stored. cache s ?k = Some (v, stored) \<and> stored + ttl \<le> t1)"
  proof -
    have r1: "(v1, s1) = run_body dl1 t1 ?k s"
      using cached_miss [OF m] assms(3) by simp
    then have v1: "v1 = get_stock_data dl1 ticker start end'"
      and c1: "cache s1 ?k = Some (v1, t1)"
      and a1: "adapter_calls s1 = adapter_calls s @ [?k]"
      by (simp_all add: run_body_result)
    have "t2 < t1 + ttl"
      using assms(2) by simp
    then have "get_stock_data_cached dl2 t2 ?k s1 = (v1, s1)"
      using c1 by (intro cached_hit)
    with assms(4) have "v2 = v1" "s2 = s1"
      by simp_all
    with v1 a1 show ?thesis
      by simp
  qed
  have hits: "v1 = v \<and> v2 = v \<and> s2 = s"
    if c: "cache s ?k = Some (v, stored)" and w: "t2 < stored + ttl" for v stored
  proof -
    have "t1 < stored + ttl"
      using w assms(1) by simp
    then have "get_stock_data_cached dl1 t1 ?k s = (v, s)"
      using c by (intro cached_hit)
    with assms(3) have 1: "v1 = v" "s1 = s"
      by simp_all
    have "get_stock_data_cached dl2 t2 ?k s = (v, s)"
      using c w by (rule cached_hit)
    with assms(4) 1 show ?thesis
      by simp
  qed
  have expiry: "v1 = v \<and> v2 = get_stock_data dl2 ticker start end'
              \<and> adapter_calls s2 = adapter_calls s @ [?k]"
    if c: "cache s ?k = Some (v, stored)" and w: "t1 < stored + ttl" and x: "stored + ttl \<le> t2"
    for v stored
  proof -
    have "get_stock_data_cached dl1 t1 ?k s = (v, s)"
      using c w by (rule cached_hit)
    with assms(3) have 1: "v1 = v" "s1 = s"
      by simp_all
    have "get_stock_data_cached dl2 t2 ?k s = run_body dl2 t2 ?k s"
      using c x by (intro cached_miss) blast
    with assms(4) 1 have "(v2, s2) = run_body dl2 t2 ?k s"
      by simp
    then show ?thesis
      using 1 by (simp add: run_body_result)
  qed
  have count: "length (adapter_calls s2) \<le> length (adapter_calls s) + 1"
  proof (cases "cache s ?k")
    case None
    with miss have "adapter_calls s2 = adapter_calls s @ [?k]" by blast
    then show ?thesis by simp
  next
    case (Some e)
    obtain v stored where e: "e = (v, stored)"
      by (cases e)
    consider "stored + ttl \<le> t1" | "t2 < stored + ttl" | "t1 < stored + ttl" "stored + ttl \<le> t2"
      by linarith
    then show ?thesis
    proof cases
      case 1
      with Some e miss have "adapter_calls s2 = adapter_calls s @ [?k]" by blast
      then show ?thesis by simp
    next
      case 2
      with Some e hits have "s2 = s" by blast
      then show ?thesis by simp
    next
      case 3
      with Some e expiry have "adapter_calls s2 = adapter_calls s @ [?k]" by blast
      then show ?thesis by simp
    qed
  qed
  from count miss hits expiry show ?thesis
    by blast
qed

theorem cache_within_ttl_witness:
  "(0::seconds) \<le> 3599 \<and> (3599::seconds) - 0 < ttl
   \<and> get_stock_data_cached (\<lambda>_ _ _. []) 0 (''AAPL'', 1, 2) empty_session
       = (None, \<lparr>cache = [(''AAPL'', 1, 2) \<mapsto> (None, 0)], adapter_calls = [(''AAPL'', 1, 2)]\<rparr>)
   \<and> get_stock_data_cached (\<lambda>_ _ _. [(1, 100)]) 3599 (''AAPL'', 1, 2)
         \<lparr>cache = [(''AAPL'', 1, 2) \<mapsto> (None, 0)], adapter_calls = [(''AAPL'', 1, 2)]\<rparr>
       = (None, \<lparr>cache = [(''AAPL'', 1, 2) \<mapsto> (None, 0)], adapter_calls = [(''AAPL'', 1, 2)]\<rparr>)
   \<and> cache empty_session (''AAPL'', 1, 2) = None
   \<and> length (adapter_calls \<lparr>cache = [(''AAPL'', 1, 2) \<mapsto> (None, 0)],
                               adapter_calls = [(''AAPL'', 1, 2)]\<rparr>)
       \<le> length (adapter_calls empty_session) + 1
   \<and> adapter_calls \<lparr>cache = [(''AAPL'', 1, 2) \<mapsto> (None, 0)], adapter_calls = [(''AAPL'', 1, 2)]\<rparr>
       = adapter_calls empty_session @ [(''AAPL'', 1, 2)]"
proof -
  let ?s1 = "\<lparr>cache = [(''AAPL'', 1, 2) \<mapsto> (None, 0)], adapter_calls = [(''AAPL'', 1, 2)]\<rparr>"
  have le: "(0::seconds) \<le> 3599" and lt: "(3599::seconds) - 0 < ttl"
    by (simp_all add: ttl_def)
  have c1: "get_stock_data_cached (\<lambda>_ _ _. []) 0 (''AAPL'', 1, 2) empty_session = (None, ?s1)"
    by (simp add: get_stock_data_cached_def run_body_def get_stock_data_def empty_session_def)
  have c2: "get_stock_data_cached (\<lambda>_ _ _. [(1, 100)]) 3599 (''AAPL'', 1, 2) ?s1 = (None, ?s1)"
    by (simp add: get_stock_data_cached_def ttl_def)
  have fresh: "cache empty_session (''AAPL'', 1, 2) = None"
    by (simp add: empty_session_def)
  from cache_within_ttl [OF le lt c1 c2] le lt c1 c2 fresh show ?thesis
    by blast
qed

text \<open>
  Claim C8 as stated promises identical values for any two calls less than 3600 seconds
  apart. A value stored at time 0 (here the empty marker: the provider had no data then)
  is served at time 3000 and has expired at time 4000, where the body runs again and
  returns the frame of the data the provider has by then.
\<close>

theorem cache_expiry_between_calls_counterexample:
  "(3000::seconds) \<le> 4000 \<and> (4000::seconds) - 3000 < ttl
   \<and> snd (get_stock_data_cached (\<lambda>_ _ _. []) 0 (''AAPL'', 1, 2) empty_session)
       = \<lparr>cache = [(''AAPL'', 1, 2) \<mapsto> (None, 0)], adapter_calls = [(''AAPL'', 1, 2)]\<rparr>
   \<and> get_stock_data_cached (\<lambda>_ _ _. [(1, 100)]) 3000 (''AAPL'', 1, 2)
         \<lparr>cache = [(''AAPL'', 1, 2) \<mapsto> (None, 0)], adapter_calls = [(''AAPL'', 1, 2)]\<rparr>
       = (None, \<lparr>cache = [(''AAPL'', 1, 2) \<mapsto> (None, 0)], adapter_calls = [(''AAPL'', 1, 2)]\<rparr>)
   \<and> fst (get_stock_data_cached (\<lambda>_ _ _. [(1, 100)]) 4000 (''AAPL'', 1, 2)
         \<lparr>cache = [(''AAPL'', 1, 2) \<mapsto> (None, 0)], adapter_calls = [(''AAPL'', 1, 2)]\<rparr>)
       = Some (add_returns [(1, 100)])
   \<and> fst (get_stock_data_cached (\<lambda>_ _ _. [(1, 100)]) 4000 (''AAPL'', 1, 2)
         \<lparr>cache = [(''AAPL'', 1, 2) \<mapsto> (None, 0)], adapter_calls = [(''AAPL'', 1, 2)]\<rparr>)
       \<noteq> fst (get_stock_data_cached (\<lambda>_ _ _. [(1, 100)]) 3000 (''AAPL'', 1, 2)
         \<lparr>cache = [(''AAPL'', 1, 2) \<mapsto> (None, 0)], adapter_calls = [(''AAPL'', 1, 2)]\<rparr>)"
  by (simp add: get_stock_data_cached_def run_body_def get_stock_data_def empty_session_def
      ttl_def Let_def)

subsection \<open>The ticker\<close>










end
